theory Spec2Isabelle
  imports Complex_Main
begin

section \<open>Numbers, shared helpers and types\<close>

text \<open>
  The program is TypeScript; its numbers are IEEE doubles. They are modelled here as
  \<^typ>\<open>real\<close>: rounding, signed zeros, infinities and NaN are outside the model.
  \<open>Math.sqrt\<close>, \<open>Math.sin\<close>, \<open>Math.cos\<close> and \<open>Math.PI\<close> are the real
  \<^const>\<open>sqrt\<close>, \<^const>\<open>sin\<close>, \<^const>\<open>cos\<close> and \<^const>\<open>pi\<close>.
  A three-component array or vector is a triple \<open>(x, y, z)\<close>, a two-component one a
  pair \<open>(x, y)\<close>.
\<close>

type_synonym vec3 = "real \<times> real \<times> real"

text \<open>\<open>src/components/Scene3D.tsx\<close>, line 8: \<^verbatim>\<open>const lerp = (a, b, t) => a + (b - a) * t\<close>.\<close>

definition lerp :: "real \<Rightarrow> real \<Rightarrow> real \<Rightarrow> real" where
  "lerp a b t = a + (b - a) * t"

definition TREE_ROTATION_SPEED :: real where
  "TREE_ROTATION_SPEED = 0.3"

text \<open>The constants file of the repository.\<close>

definition TREE_HEIGHT :: real where
  "TREE_HEIGHT = 14"

definition TREE_RADIUS :: real where
  "TREE_RADIUS = 6"

text \<open>\<open>src/types.ts\<close>: the enum \<open>TreeState\<close> and the interface \<open>HandData\<close>.\<close>

datatype TreeState = CLOSED | SCATTERED

record HandData =
  isOpen :: bool
  rotation :: vec3
  position :: "real \<times> real"
  detected :: bool

section \<open>The formation state machine (\<open>src/App.tsx\<close>)\<close>

text \<open>
  The body of the effect of \<open>App\<close> (lines 18 to 26). It runs with the current hand data
  and tree state and may call \<open>setTreeState\<close>; the function returns the tree state
  after the effect, which is the old one when no setter is called.
\<close>

definition transitionEffect :: "HandData \<Rightarrow> TreeState \<Rightarrow> TreeState" where
  "transitionEffect handData treeState =
     (if detected handData then
        (if isOpen handData \<and> treeState = CLOSED then SCATTERED
         else if \<not> isOpen handData \<and> treeState = SCATTERED then CLOSED
         else treeState)
      else treeState)"

section \<open>The meteor population (\<open>MeteorShower\<close>)\<close>

text \<open>The seed record of one meteor (\<open>meteorData\<close>, line 346).\<close>

record MeteorData =
  m_phase :: real
  m_speed :: real
  m_yOffset :: real
  m_radiusOffset :: real
  m_size :: real
  m_verticalSpeed :: real

text \<open>
  What one pass of the \<open>forEach\<close> body (lines 352 to 365) writes for one meteor: the
  position and the uniform scale of the instance matrix.
\<close>

record InstanceMatrix =
  mat_position :: vec3
  mat_scale :: real

definition meteorUpdate :: "TreeState \<Rightarrow> real \<Rightarrow> MeteorData \<Rightarrow> InstanceMatrix" where
  "meteorUpdate treeState time m =
     (let isClosed = (treeState = CLOSED);
          t = time * m_speed m + m_phase m;
          verticalDrift = sin (time * 0.5 + m_phase m) * 2;
          orbitRadius = (if isClosed then TREE_RADIUS * 1.1 + m_radiusOffset m else 25);
          x = cos t * orbitRadius;
          z = sin t * orbitRadius;
          y = m_yOffset m + verticalDrift;
          pulse = 1 + sin (time * 3 + m_phase m) * 0.3
      in \<lparr>mat_position = (x, y, z),
          mat_scale = m_size m * pulse * (if isClosed then 1 else 0.3)\<rparr>)"

definition meteorFrame :: "TreeState \<Rightarrow> real \<Rightarrow> MeteorData list \<Rightarrow> InstanceMatrix list" where
  "meteorFrame treeState time meteorData = map (meteorUpdate treeState time) meteorData"

section \<open>The gesture classifier (\<open>src/components/HandTracker.tsx\<close>)\<close>

text \<open>
  A landmark of the detector is an object with the coordinates \<open>x\<close>, \<open>y\<close> and \<open>z\<close>;
  the classifier reads \<open>x\<close> and \<open>y\<close> only. The value \<open>results.multiHandLandmarks\<close> is
  absent (\<open>None\<close>) or a list of hands, each hand a list of landmarks.
\<close>

record Landmark =
  lm_x :: real
  lm_y :: real
  lm_z :: real

record Results =
  multiHandLandmarks :: "Landmark list list option"

text \<open>Reading a property of \<open>undefined\<close> throws a \<open>TypeError\<close>.\<close>

datatype js_error = TypeError

text \<open>A JavaScript array read \<open>xs[i]\<close>: \<open>undefined\<close> (here \<open>None\<close>) out of range.\<close>

definition index :: "'a list \<Rightarrow> nat \<Rightarrow> 'a option" where
  "index xs i = (if i < length xs then Some (xs ! i) else None)"

text \<open>
  \<open>Math.atan2 (y, x)\<close> on reals: the angle of the point \<open>(x, y)\<close> in \<open>(-pi, pi]\<close>,
  and 0 at the origin.
\<close>

definition atan2 :: "real \<Rightarrow> real \<Rightarrow> real" where
  "atan2 y x =
     (if 0 < x then arctan (y / x)
      else if x < 0 then (if 0 \<le> y then arctan (y / x) + pi else arctan (y / x) - pi)
      else if 0 < y then pi / 2
      else if y < 0 then - (pi / 2)
      else 0)"

text \<open>
  The \<open>reduce\<close> of lines 46 to 50 over the finger tips, from the accumulator \<open>acc\<close>:
  each step reads \<open>tip.x\<close> and \<open>wrist.x\<close>, which throws when the tip or the wrist is
  \<open>undefined\<close>.
\<close>

fun reduceDist :: "Landmark option \<Rightarrow> real \<Rightarrow> Landmark option list \<Rightarrow> js_error + real" where
  "reduceDist wrist acc [] = Inr acc"
| "reduceDist wrist acc (tip # tips) =
     (case tip of
        None \<Rightarrow> Inl TypeError
      | Some tp \<Rightarrow>
          (case wrist of
             None \<Rightarrow> Inl TypeError
           | Some w \<Rightarrow>
               (let dx = lm_x tp - lm_x w;
                    dy = lm_y tp - lm_y w
                in reduceDist wrist (acc + sqrt (dx * dx + dy * dy)) tips)))"

text \<open>The signal sent when no hand is found (lines 75 to 80).\<close>

definition notDetected :: HandData where
  "notDetected = \<lparr>isOpen = False, rotation = (0, 0, 0), position = (0, 0), detected = False\<rparr>"

text \<open>
  The callback of \<open>hands.onResults\<close> (lines 30 to 83). \<open>hasCanvas\<close> says whether
  the canvas and its 2D context exist; without them the callback returns at once and
  sends nothing (\<open>Inr None\<close>). Otherwise the result is the value handed to
  \<open>onHandUpdate\<close>, or the exception thrown before that call. The drawing on the canvas
  is left out.
\<close>

definition onResults :: "bool \<Rightarrow> Results \<Rightarrow> js_error + HandData option" where
  "onResults hasCanvas results =
     (if \<not> hasCanvas then Inr None
      else
        (case multiHandLandmarks results of
           None \<Rightarrow> Inr (Some notDetected)
         | Some hands \<Rightarrow>
             if 0 < length hands then
               (let landmarks = hands ! 0;
                    wrist = index landmarks 0;
                    fingerTips = map (index landmarks) [8, 12, 16, 20]
                in case reduceDist wrist 0 fingerTips of
                     Inl e \<Rightarrow> Inl e
                   | Inr distSum \<Rightarrow>
                       (let avgDist = distSum / real (length fingerTips);
                            isOpen = (0.35 < avgDist)
                        in case index landmarks 9 of
                             None \<Rightarrow> Inl TypeError
                           | Some middleBase \<Rightarrow>
                               (case wrist of
                                  None \<Rightarrow> Inl TypeError
                                | Some w \<Rightarrow>
                                    (let dx = lm_x middleBase - lm_x w;
                                         dy = lm_y middleBase - lm_y w;
                                         angle = atan2 dy dx
                                     in Inr (Some \<lparr>isOpen = isOpen,
                                                    rotation = (dy * 2, dx * 2, angle),
                                                    position = (lm_x middleBase, lm_y middleBase),
                                                    detected = True\<rparr>)))))
             else Inr (Some notDetected)))"

text \<open>
  For the statement of the classifier's threshold: the distance of two landmarks in the
  image plane, and the mean of the four distances from the finger tips (indices 8, 12,
  16, 20) to the wrist (index 0), written out.
\<close>

definition planeDist :: "Landmark \<Rightarrow> Landmark \<Rightarrow> real" where
  "planeDist p q = sqrt ((lm_x p - lm_x q)\<^sup>2 + (lm_y p - lm_y q)\<^sup>2)"

definition meanTipDist :: "Landmark list \<Rightarrow> real" where
  "meanTipDist lms =
     (planeDist (lms ! 8) (lms ! 0) + planeDist (lms ! 12) (lms ! 0) +
      planeDist (lms ! 16) (lms ! 0) + planeDist (lms ! 20) (lms ! 0)) / 4"

section \<open>Instance buffers and the scratch object (\<open>src/components/Scene3D.tsx\<close>)\<close>

text \<open>
  Each population owns one scratch \<open>THREE.Object3D\<close> (\<open>dummy\<close>), created once and
  shared by all its instances and all frames. Of it the model keeps the position and
  the scale; the scale is only ever set by \<open>setScalar\<close>, which makes its three
  components equal, so one number stands for \<open>dummy.scale.x\<close>. A new object has
  position \<open>(0, 0, 0)\<close> and scale 1. \<open>updateMatrix\<close> followed by \<open>setMatrixAt (i, dummy.matrix)\<close>
  stores the current position and scale as entry \<open>i\<close> of the instance buffer.
  Orientation and colour are left out.
\<close>

record Object3D =
  obj_position :: vec3
  obj_scale :: real

definition newObject3D :: Object3D where
  "newObject3D = \<lparr>obj_position = (0, 0, 0), obj_scale = 1\<rparr>"

definition matrixOf :: "Object3D \<Rightarrow> InstanceMatrix" where
  "matrixOf d = \<lparr>mat_position = obj_position d, mat_scale = obj_scale d\<rparr>"

section \<open>The emblem (\<open>TreeTopStar\<close>)\<close>



section \<open>The ripple population (\<open>BaseRipple\<close>)\<close>

text \<open>
  The remainder operator \<open>a % b\<close> of JavaScript on numbers, for \<open>b\<close> other than 0:
  \<open>a\<close> minus \<open>b\<close> times the quotient truncated toward zero, so the result has the sign
  of \<open>a\<close>.
\<close>

definition js_rem :: "real \<Rightarrow> real \<Rightarrow> real" where
  "js_rem a b = a - b * of_int (if 0 \<le> a / b then \<lfloor>a / b\<rfloor> else \<lceil>a / b\<rceil>)"

definition cycleDuration :: real where
  "cycleDuration = 6.5"

definition staggerTime :: real where
  "staggerTime = 0.9"

text \<open>The seed record of one ripple particle (\<open>rippleData\<close>, lines 268 to 279).\<close>

record RippleData =
  r_ringIndex :: nat
  r_angle :: real
  r_randomOffset :: real
  r_speed :: real

text \<open>
  One pass of the \<open>forEach\<close> body (lines 287 to 326) for the particle \<open>r\<close>: the scratch
  object as it is when \<open>setMatrixAt\<close> stores it. The two early exits set the scale to 0
  and leave the position of the scratch object as the previous pass left it.
\<close>

definition rippleUpdate :: "real \<Rightarrow> real \<Rightarrow> RippleData \<Rightarrow> Object3D \<Rightarrow> Object3D" where
  "rippleUpdate baseRadius time r dummy =
     (let startTime = real (r_ringIndex r) * staggerTime;
          cycleTime = js_rem (time - startTime) cycleDuration
      in if time < startTime then dummy\<lparr>obj_scale := 0\<rparr>
         else
           (let activeWindow = 3.0;
                progress = cycleTime / activeWindow
            in if 1.0 < progress \<or> progress < 0 then dummy\<lparr>obj_scale := 0\<rparr>
               else
                 (let easeOutQuart = 1 - (1 - progress) ^ 4;
                      currentRadius = easeOutQuart * baseRadius + r_randomOffset r * 10;
                      opacity = max 0 (1 - progress);
                      x = cos (r_angle r) * currentRadius;
                      z = sin (r_angle r) * currentRadius;
                      y = - TREE_HEIGHT / 2 - 0.5;
                      size = (0.08 + r_randomOffset r * 0.15) * opacity
                  in dummy\<lparr>obj_position := (x, y, z), obj_scale := size\<rparr>)))"

text \<open>The loop over all particles: the scratch object is threaded, one buffer entry per particle.\<close>

fun rippleLoop :: "real \<Rightarrow> real \<Rightarrow> RippleData list \<Rightarrow> Object3D \<Rightarrow> InstanceMatrix list \<times> Object3D" where
  "rippleLoop baseRadius time [] dummy = ([], dummy)"
| "rippleLoop baseRadius time (r # rs) dummy =
     (let d = rippleUpdate baseRadius time r dummy;
          (ms, d') = rippleLoop baseRadius time rs d
      in (matrixOf d # ms, d'))"

text \<open>The frame callback of \<open>BaseRipple\<close> (lines 281 to 330), for a mounted mesh.\<close>

definition rippleFrame :: "TreeState \<Rightarrow> real \<Rightarrow> RippleData list \<Rightarrow> Object3D \<Rightarrow> InstanceMatrix list \<times> Object3D" where
  "rippleFrame treeState time rippleData dummy =
     (let isClosed = (treeState = CLOSED);
          baseRadius = (if isClosed then 28 else 55)
      in rippleLoop baseRadius time rippleData dummy)"

section \<open>The snow population (\<open>Snowfall\<close>)\<close>

text \<open>The record of one snow flake (\<open>emojiData\<close>, line 381); \<open>x\<close>, \<open>y\<close>, \<open>z\<close> are mutated.\<close>

record SnowData =
  s_x :: real
  s_y :: real
  s_z :: real
  s_speed :: real
  s_offset :: real
  s_size :: real
  s_rotSpeed :: real

text \<open>
  \<open>Math.random ()\<close> is a sequence \<open>random\<close> of numbers, read through a counter of the
  calls made so far. One pass of the loop body (lines 385 to 395) for the flake \<open>s\<close>:
  the flake and the counter afterwards.
\<close>

definition snowUpdate :: "(nat \<Rightarrow> real) \<Rightarrow> real \<Rightarrow> SnowData \<times> nat \<Rightarrow> SnowData \<times> nat" where
  "snowUpdate random delta sk =
     (let s = fst sk;
          k = snd sk;
          s1 = s\<lparr>s_y := s_y s - s_speed s * delta * 2\<rparr>
      in if s_y s1 < - 20
         then (s1\<lparr>s_y := 30,
                  s_x := (random k - 0.5) * 60,
                  s_z := (random (k + 1) - 0.5) * 60\<rparr>, k + 2)
         else (s1, k))"




section \<open>The ornament population (\<open>EmojiLayer\<close>)\<close>

text \<open>\<open>src/types.ts\<close>: the interface \<open>OrnamentData\<close>.\<close>

record OrnamentData =
  o_initialPos :: vec3
  o_treePos :: vec3
  o_scatterPos :: vec3
  o_type :: string
  o_color :: string
  o_size :: real

text \<open>Line 419: the target of an ornament under a tree state.\<close>

definition targetPos :: "TreeState \<Rightarrow> OrnamentData \<Rightarrow> vec3" where
  "targetPos treeState o' = (if treeState = CLOSED then o_treePos o' else o_scatterPos o')"

text \<open>
  Lines 421 to 423: the three assignments to \<open>currentPositions.current[i]\<close>, with
  \<open>t = delta * 2.5\<close> (line 414).
\<close>

definition smoothPosition :: "TreeState \<Rightarrow> real \<Rightarrow> OrnamentData \<Rightarrow> vec3 \<Rightarrow> vec3" where
  "smoothPosition treeState delta o' cur =
     (let t = delta * 2.5;
          target = targetPos treeState o'
      in (lerp (fst cur) (fst target) t,
          lerp (fst (snd cur)) (fst (snd target)) t,
          lerp (snd (snd cur)) (snd (snd target)) t))"

text \<open>
  One pass of the loop body (lines 418 to 455) for the ornament \<open>o'\<close> with index \<open>i\<close>,
  its stored position \<open>cur\<close> and the scratch object: the new stored position and the
  scratch object as \<open>setMatrixAt\<close> stores it. The scale is interpolated from
  \<open>dummy.scale.x\<close>, the scale of the scratch object as the previous pass left it.
\<close>

definition emojiUpdate :: "TreeState \<Rightarrow> real \<Rightarrow> real \<Rightarrow> nat \<Rightarrow> OrnamentData \<Rightarrow> vec3 \<Rightarrow> Object3D \<Rightarrow>
    vec3 \<times> Object3D" where
  "emojiUpdate treeState elapsedTime delta i o' cur dummy =
     (let t = delta * 2.5;
          angleOffset = elapsedTime * TREE_ROTATION_SPEED;
          cur' = smoothPosition treeState delta o' cur;
          px = fst cur';
          py = fst (snd cur');
          pz = snd (snd cur');
          p = (if treeState = SCATTERED
               then (px + sin (elapsedTime * 0.4 + real i) * 0.015,
                     py + cos (elapsedTime * 0.5 + real i) * 0.015,
                     pz + sin (elapsedTime * 0.6 + real i) * 0.015)
               else (let s = sin angleOffset;
                         c = cos angleOffset;
                         rx = px * c - pz * s;
                         rz = px * s + pz * c
                     in (rx, py, rz)));
          s = (if treeState = CLOSED then o_size o' else o_size o' * 2.0)
      in (cur', dummy\<lparr>obj_position := p, obj_scale := lerp (obj_scale dummy) s t\<rparr>))"

text \<open>
  The loop over \<open>data\<close> from index \<open>i\<close> on (line 417). \<open>currentPositions.current\<close> was
  built from \<open>data\<close> and has its length; were it shorter, reading component 0 of the
  missing entry would throw.
\<close>

fun emojiLoop :: "TreeState \<Rightarrow> real \<Rightarrow> real \<Rightarrow> nat \<Rightarrow> OrnamentData list \<Rightarrow> vec3 list \<Rightarrow> Object3D \<Rightarrow>
    js_error + (vec3 list \<times> InstanceMatrix list \<times> Object3D)" where
  "emojiLoop treeState elapsedTime delta i [] cps dummy = Inr (cps, [], dummy)"
| "emojiLoop treeState elapsedTime delta i (o' # os) [] dummy = Inl TypeError"
| "emojiLoop treeState elapsedTime delta i (o' # os) (cp # cps) dummy =
     (let (cp', d) = emojiUpdate treeState elapsedTime delta i o' cp dummy
      in case emojiLoop treeState elapsedTime delta (Suc i) os cps d of
           Inl e \<Rightarrow> Inl e
         | Inr (cps', ms, d') \<Rightarrow> Inr (cp' # cps', matrixOf d # ms, d'))"

text \<open>
  The frame callback of \<open>EmojiLayer\<close> (lines 412 to 460), for a mounted mesh: from the
  stored positions and the scratch object to the new stored positions, the instance
  buffer and the scratch object.
\<close>

definition emojiFrame :: "TreeState \<Rightarrow> real \<Rightarrow> real \<Rightarrow> OrnamentData list \<Rightarrow> vec3 list \<Rightarrow> Object3D \<Rightarrow>
    js_error + (vec3 list \<times> InstanceMatrix list \<times> Object3D)" where
  "emojiFrame treeState elapsedTime delta data currentPositions dummy =
     emojiLoop treeState elapsedTime delta 0 data currentPositions dummy"

text \<open>
  The frame callback run \<open>n\<close> times in a row under one tree state and one \<open>delta\<close>,
  frame \<open>k\<close> at the elapsed time \<open>el k\<close>: the stored positions and the scratch object
  after the last of the frames.
\<close>

fun emojiFrames :: "TreeState \<Rightarrow> (nat \<Rightarrow> real) \<Rightarrow> real \<Rightarrow> OrnamentData list \<Rightarrow> nat \<Rightarrow> vec3 list \<Rightarrow>
    Object3D \<Rightarrow> js_error + (vec3 list \<times> Object3D)" where
  "emojiFrames treeState el delta data 0 cps dummy = Inr (cps, dummy)"
| "emojiFrames treeState el delta data (Suc n) cps dummy =
     (case emojiFrames treeState el delta data n cps dummy of
        Inl e \<Rightarrow> Inl e
      | Inr (cps', d) \<Rightarrow>
          (case emojiFrame treeState (el n) delta data cps' d of
             Inl e \<Rightarrow> Inl e
           | Inr (cps'', ms, d') \<Rightarrow> Inr (cps'', d')))"

text \<open>Line 410: the stored positions at mount, a copy of each ornament's tree position.\<close>

definition initialPositions :: "OrnamentData list \<Rightarrow> vec3 list" where
  "initialPositions data = map o_treePos data"

text \<open>The euclidean distance of two points in space, for the statements on convergence.\<close>

definition dist3 :: "vec3 \<Rightarrow> vec3 \<Rightarrow> real" where
  "dist3 p q =
     sqrt ((fst p - fst q)\<^sup>2 + (fst (snd p) - fst (snd q))\<^sup>2 + (snd (snd p) - snd (snd q))\<^sup>2)"

section \<open>The camera controller (\<open>CameraController\<close>)\<close>

text \<open>
  \<open>targetCameraRotation\<close> is a mutable object \<open>{x, y}\<close>, initially \<open>{x: 0, y: 0}\<close>. Of the
  camera the model keeps the position and the point that \<open>lookAt\<close> was last called
  with.
\<close>

record Rotation2 =
  rot_x :: real
  rot_y :: real

record Camera =
  cam_position :: vec3
  cam_lookAt :: vec3

text \<open>The frame callback of \<open>CameraController\<close> (lines 510 to 521).\<close>

definition cameraFrame :: "HandData \<Rightarrow> real \<Rightarrow> Rotation2 \<times> Camera \<Rightarrow> Rotation2 \<times> Camera" where
  "cameraFrame handData delta tc =
     (let targetCameraRotation = fst tc;
          camera = snd tc;
          t = delta * 3;
          target = (if detected handData
                    then targetCameraRotation
                           \<lparr>rot_y := (fst (position handData) - 0.5) * pi,
                            rot_x := (snd (position handData) - 0.5) * pi * 0.5\<rparr>
                    else targetCameraRotation);
          dist = 32;
          x = lerp (fst (cam_position camera)) (dist * sin (rot_y target)) t;
          z = lerp (snd (snd (cam_position camera))) (dist * cos (rot_y target)) t;
          y = lerp (fst (snd (cam_position camera))) (rot_x target * 20 + 7) t
      in (target, camera\<lparr>cam_position := (x, y, z), cam_lookAt := (0, 0, 0)\<rparr>))"

section \<open>Formation state machine: results\<close>

lemma transitionEffect_settled:
  "transitionEffect h (transitionEffect h s) = transitionEffect h s"
  by (cases s) (simp_all add: transitionEffect_def)

text \<open>
  Claim C1. For every gesture signal: from CLOSED (the spec's GATHERED) a signal with
  detected and isOpen leads to SCATTERED; from SCATTERED a signal with detected and not
  isOpen leads to CLOSED; a signal that is not detected leaves the state as it is,
  whatever isOpen says.
\<close>

theorem formation_step:
  "(detected h \<and> isOpen h \<longrightarrow> transitionEffect h CLOSED = SCATTERED) \<and>
   (detected h \<and> \<not> isOpen h \<longrightarrow> transitionEffect h SCATTERED = CLOSED) \<and>
   (\<not> detected h \<longrightarrow> transitionEffect h s = s)"
  by (simp add: transitionEffect_def)

theorem formation_step_witness:
  "transitionEffect \<lparr>isOpen = True, rotation = (0, 0, 0), position = (1/2, 1/2), detected = True\<rparr>
     CLOSED = SCATTERED \<and>
   transitionEffect \<lparr>isOpen = False, rotation = (0, 0, 0), position = (1/2, 1/2), detected = True\<rparr>
     SCATTERED = CLOSED \<and>
   transitionEffect \<lparr>isOpen = True, rotation = (0, 0, 0), position = (0, 0), detected = False\<rparr>
     SCATTERED = SCATTERED \<and>
   transitionEffect \<lparr>isOpen = False, rotation = (0, 0, 0), position = (0, 0), detected = False\<rparr>
     CLOSED = CLOSED"
  using
    formation_step [of "\<lparr>isOpen = True, rotation = (0, 0, 0), position = (1/2, 1/2), detected = True\<rparr>" CLOSED]
    formation_step [of "\<lparr>isOpen = False, rotation = (0, 0, 0), position = (1/2, 1/2), detected = True\<rparr>" CLOSED]
    formation_step [of "\<lparr>isOpen = True, rotation = (0, 0, 0), position = (0, 0), detected = False\<rparr>" SCATTERED]
    formation_step [of "\<lparr>isOpen = False, rotation = (0, 0, 0), position = (0, 0), detected = False\<rparr>" CLOSED]
  by simp

section \<open>Gesture classifier: results\<close>

lemma reduceDist_defined:
  "reduceDist (Some w) acc (map Some tips) = Inr (acc + (\<Sum>tp\<leftarrow>tips. planeDist tp w))"
  by (induction tips arbitrary: acc) (simp_all add: planeDist_def Let_def power2_eq_square)

lemma reduceDist_undefined_tip:
  "None \<in> set tips \<Longrightarrow> reduceDist w acc tips = Inl TypeError"
  by (induction tips arbitrary: acc) (auto split: option.splits simp: Let_def)

lemma onResults_complete:
  assumes "21 \<le> length lms"
  shows "onResults True \<lparr>multiHandLandmarks = Some (lms # rest)\<rparr> =
     Inr (Some \<lparr>isOpen = (0.35 < meanTipDist lms),
       rotation = ((lm_y (lms ! 9) - lm_y (lms ! 0)) * 2, (lm_x (lms ! 9) - lm_x (lms ! 0)) * 2,
          atan2 (lm_y (lms ! 9) - lm_y (lms ! 0)) (lm_x (lms ! 9) - lm_x (lms ! 0))),
       position = (lm_x (lms ! 9), lm_y (lms ! 9)),
       detected = True\<rparr>)"
proof -
  have tips: "map (index lms) [8, 12, 16, 20] = map Some [lms ! 8, lms ! 12, lms ! 16, lms ! 20]"
    using assms by (simp add: index_def)
  have w: "index lms 0 = Some (lms ! 0)" and m: "index lms 9 = Some (lms ! 9)"
    using assms by (auto simp: index_def)
  have red: "reduceDist (Some (lms ! 0)) 0 (map (index lms) [8, 12, 16, 20]) = Inr (4 * meanTipDist lms)"
    unfolding tips reduceDist_defined by (simp add: meanTipDist_def)
  show ?thesis
    by (simp add: onResults_def Let_def w m red del: reduceDist.simps list.map)
qed

lemma onResults_incomplete:
  assumes "length lms < 21"
  shows "onResults True \<lparr>multiHandLandmarks = Some (lms # rest)\<rparr> = Inl TypeError"
proof -
  have "index lms 20 = None" using assms by (simp add: index_def)
  then have "None \<in> set (map (index lms) [8, 12, 16, 20])" by simp
  then have "reduceDist (index lms 0) 0 (map (index lms) [8, 12, 16, 20]) = Inl TypeError"
    by (rule reduceDist_undefined_tip)
  then show ?thesis
    by (simp add: onResults_def Let_def del: reduceDist.simps list.map)
qed

lemma onResults_no_hand:
  "onResults True \<lparr>multiHandLandmarks = None\<rparr> = Inr (Some notDetected)"
  "onResults True \<lparr>multiHandLandmarks = Some []\<rparr> = Inr (Some notDetected)"
  by (simp_all add: onResults_def)

text \<open>
  Claim C2. For every frame with a hand of at least 21 landmarks (so that the indices
  0, 8, 9, 12, 16 and 20 exist) the classifier sends a detected signal whose isOpen is
  true exactly when the mean of the four distances from the finger tips to the wrist is
  greater than 0.35; a mean of exactly 0.35 gives isOpen false. The distance is taken
  in the image plane, over the coordinates x and y that the classifier reads.
\<close>

theorem classifier_open_threshold:
  assumes "21 \<le> length lms"
  shows "\<exists>h. onResults True \<lparr>multiHandLandmarks = Some (lms # rest)\<rparr> = Inr (Some h) \<and>
           detected h \<and> (isOpen h \<longleftrightarrow> 0.35 < meanTipDist lms)"
  using onResults_complete [OF assms] by simp

theorem classifier_open_threshold_witness:
  "21 \<le> length (replicate 8 \<lparr>lm_x = 0, lm_y = 0, lm_z = 0\<rparr> @ replicate 13 \<lparr>lm_x = 0.35, lm_y = 0, lm_z = 0\<rparr>) \<and>
   meanTipDist (replicate 8 \<lparr>lm_x = 0, lm_y = 0, lm_z = 0\<rparr> @ replicate 13 \<lparr>lm_x = 0.35, lm_y = 0, lm_z = 0\<rparr>) = 0.35 \<and>
   (\<exists>h. onResults True \<lparr>multiHandLandmarks =
          Some [replicate 8 \<lparr>lm_x = 0, lm_y = 0, lm_z = 0\<rparr> @ replicate 13 \<lparr>lm_x = 0.35, lm_y = 0, lm_z = 0\<rparr>]\<rparr>
        = Inr (Some h) \<and> detected h \<and> \<not> isOpen h) \<and>
   21 \<le> length (replicate 8 \<lparr>lm_x = 0, lm_y = 0, lm_z = 0\<rparr> @ replicate 13 \<lparr>lm_x = 0.5, lm_y = 0, lm_z = 0\<rparr>) \<and>
   meanTipDist (replicate 8 \<lparr>lm_x = 0, lm_y = 0, lm_z = 0\<rparr> @ replicate 13 \<lparr>lm_x = 0.5, lm_y = 0, lm_z = 0\<rparr>) = 0.5 \<and>
   (\<exists>h. onResults True \<lparr>multiHandLandmarks =
          Some [replicate 8 \<lparr>lm_x = 0, lm_y = 0, lm_z = 0\<rparr> @ replicate 13 \<lparr>lm_x = 0.5, lm_y = 0, lm_z = 0\<rparr>]\<rparr>
        = Inr (Some h) \<and> detected h \<and> isOpen h)"
proof -
  let ?a = "replicate 8 \<lparr>lm_x = 0, lm_y = 0, lm_z = 0\<rparr> @ replicate 13 \<lparr>lm_x = 0.35, lm_y = 0, lm_z = 0\<rparr>"
  let ?b = "replicate 8 \<lparr>lm_x = 0, lm_y = 0, lm_z = 0\<rparr> @ replicate 13 \<lparr>lm_x = 0.5, lm_y = 0, lm_z = 0\<rparr>"
  have la: "21 \<le> length ?a" and lb: "21 \<le> length ?b" by simp_all
  have ma: "meanTipDist ?a = 0.35" and mb: "meanTipDist ?b = 0.5"
    by (simp_all add: meanTipDist_def planeDist_def nth_append)
  show ?thesis
    using classifier_open_threshold [OF la, of "[]"] classifier_open_threshold [OF lb, of "[]"]
    unfolding ma mb by (simp only: la lb) simp
qed

text \<open>
  Claim C4, as stated, fails: a frame with one hand of nine landmarks is not answered
  with the not-detected signal; the callback throws a TypeError.
\<close>

theorem incomplete_frame_counterexample:
  "onResults True \<lparr>multiHandLandmarks = Some [replicate 9 \<lparr>lm_x = 0.5, lm_y = 0.5, lm_z = 0\<rparr>]\<rparr>
     = Inl TypeError \<and>
   onResults True \<lparr>multiHandLandmarks = Some [replicate 9 \<lparr>lm_x = 0.5, lm_y = 0.5, lm_z = 0\<rparr>]\<rparr>
     \<noteq> Inr (Some notDetected)"
  by (simp add: onResults_def index_def Let_def)

text \<open>
  Claim C4, amended. The classifier has no check of the number of landmarks. For every
  frame whose first hand has fewer than 21 landmarks the callback throws a TypeError
  before it sends a signal; with at least 21 landmarks it sends a detected signal; and
  the not-detected signal (detected false, isOpen false, position (0, 0), rotation
  (0, 0, 0)) is sent exactly for the frames that hold no hand.
\<close>

theorem incomplete_frame_throws:
  "(length lms < 21 \<longrightarrow>
      onResults True \<lparr>multiHandLandmarks = Some (lms # rest)\<rparr> = Inl TypeError) \<and>
   (21 \<le> length lms \<longrightarrow>
      (\<exists>h. onResults True \<lparr>multiHandLandmarks = Some (lms # rest)\<rparr> = Inr (Some h) \<and> detected h)) \<and>
   (onResults True r = Inr (Some notDetected) \<longleftrightarrow>
      multiHandLandmarks r = None \<or> multiHandLandmarks r = Some [])"
proof (intro conjI impI)
  assume "length lms < 21"
  then show "onResults True \<lparr>multiHandLandmarks = Some (lms # rest)\<rparr> = Inl TypeError"
    by (rule onResults_incomplete)
next
  assume "21 \<le> length lms"
  from onResults_complete [OF this, of rest]
  show "\<exists>h. onResults True \<lparr>multiHandLandmarks = Some (lms # rest)\<rparr> = Inr (Some h) \<and> detected h"
    by simp
next
  show "onResults True r = Inr (Some notDetected) \<longleftrightarrow>
      multiHandLandmarks r = None \<or> multiHandLandmarks r = Some []"
  proof (cases "multiHandLandmarks r")
    case None
    then show ?thesis by (simp add: onResults_def)
  next
    case (Some hands)
    show ?thesis
    proof (cases hands)
      case Nil
      with Some show ?thesis by (simp add: onResults_def)
    next
      case (Cons lms rest)
      have r: "r = \<lparr>multiHandLandmarks = Some (lms # rest)\<rparr>"
        using Some Cons by (cases r) simp
      show ?thesis
      proof (cases "length lms < 21")
        case True
        from onResults_incomplete [OF this, of rest] show ?thesis
          using Some Cons by (simp add: r)
      next
        case False
        then have "21 \<le> length lms" by simp
        from onResults_complete [OF this, of rest] show ?thesis
          using Some Cons by (simp add: r notDetected_def)
      qed
    qed
  qed
qed

theorem incomplete_frame_throws_witness:
  "onResults True \<lparr>multiHandLandmarks = Some [replicate 20 \<lparr>lm_x = 0.5, lm_y = 0.5, lm_z = 0\<rparr>]\<rparr>
     = Inl TypeError \<and>
   (\<exists>h. onResults True \<lparr>multiHandLandmarks = Some [replicate 21 \<lparr>lm_x = 0.5, lm_y = 0.5, lm_z = 0\<rparr>]\<rparr>
     = Inr (Some h) \<and> detected h)"
  using
    incomplete_frame_throws [of "replicate 20 \<lparr>lm_x = 0.5, lm_y = 0.5, lm_z = 0\<rparr>" "[]"]
    incomplete_frame_throws [of "replicate 21 \<lparr>lm_x = 0.5, lm_y = 0.5, lm_z = 0\<rparr>" "[]"]
  by simp

section \<open>Meteor population: results\<close>

text \<open>
  Claim C10. For every meteor and every frame the scale written is
  \<open>size * (1 + 0.3 * sin (3 * t + phase))\<close> times a formation factor: 1 when the state is
  CLOSED (gathered), 0.3 when it is SCATTERED. So a scattered meteor has 30 percent of
  the scale it would have gathered at the same time.
\<close>

theorem meteor_scale_formation_factor:
  "mat_scale (meteorUpdate CLOSED t m) = m_size m * (1 + 0.3 * sin (3 * t + m_phase m)) * 1 \<and>
   mat_scale (meteorUpdate SCATTERED t m) = m_size m * (1 + 0.3 * sin (3 * t + m_phase m)) * 0.3 \<and>
   mat_scale (meteorUpdate SCATTERED t m) = 0.3 * mat_scale (meteorUpdate CLOSED t m) \<and>
   map mat_scale (meteorFrame s t ms) =
     map (\<lambda>m. m_size m * (1 + 0.3 * sin (3 * t + m_phase m)) * (if s = CLOSED then 1 else 0.3)) ms"
  by (simp add: meteorUpdate_def meteorFrame_def Let_def mult.commute)

section \<open>Ripple population: results\<close>

lemma js_rem_nonneg:
  assumes "0 \<le> a" "0 < b"
  shows "js_rem a b = a - b * of_int \<lfloor>a / b\<rfloor>" "0 \<le> js_rem a b" "js_rem a b < b"
proof -
  have q: "0 \<le> a / b" using assms by simp
  then show e: "js_rem a b = a - b * of_int \<lfloor>a / b\<rfloor>" by (simp add: js_rem_def)
  have "of_int \<lfloor>a / b\<rfloor> \<le> a / b" by (rule of_int_floor_le)
  then have "b * of_int \<lfloor>a / b\<rfloor> \<le> b * (a / b)"
    using assms(2) by (intro mult_left_mono) simp_all
  then have "b * of_int \<lfloor>a / b\<rfloor> \<le> a"
    using assms(2) by simp
  then show "0 \<le> js_rem a b" unfolding e by simp
  have "a / b < of_int \<lfloor>a / b\<rfloor> + 1" by linarith
  then have "a / b * b < (of_int \<lfloor>a / b\<rfloor> + 1) * b"
    using assms(2) by (rule mult_strict_right_mono)
  then have "a < (of_int \<lfloor>a / b\<rfloor> + 1) * b"
    using assms(2) by simp
  then show "js_rem a b < b" unfolding e by (simp add: algebra_simps)
qed

lemma rippleUpdate_ring0_scale:
  assumes "r_ringIndex r = 0" "0 \<le> t"
  shows "obj_scale (rippleUpdate B t r d) =
     (if t - 6.5 * of_int \<lfloor>t / 6.5\<rfloor> < 3
      then (0.08 + r_randomOffset r * 0.15) * (1 - (t - 6.5 * of_int \<lfloor>t / 6.5\<rfloor>) / 3)
      else 0)"
proof -
  define c where "c = js_rem t cycleDuration"
  have c: "c = t - 6.5 * of_int \<lfloor>t / 6.5\<rfloor>" "0 \<le> c"
    using js_rem_nonneg [of t cycleDuration] assms(2) by (simp_all add: c_def cycleDuration_def)
  have u: "obj_scale (rippleUpdate B t r d) =
      (if 1 < c / 3 \<or> c / 3 < 0 then 0 else (0.08 + r_randomOffset r * 0.15) * max 0 (1 - c / 3))"
    using assms by (simp add: rippleUpdate_def Let_def c_def)
  show ?thesis
  proof (cases "c < 3")
    case True
    with c(2) show ?thesis unfolding u c(1) [symmetric] by (simp add: max_def)
  next
    case False
    then show ?thesis unfolding u c(1) [symmetric] by (auto simp: max_def)
  qed
qed

lemma rippleLoop_length: "length (fst (rippleLoop B t rs d)) = length rs"
  by (induction rs arbitrary: d) (simp_all add: Let_def split_beta)

lemma rippleLoop_nth:
  "i < length rs \<Longrightarrow> \<exists>d'. fst (rippleLoop B t rs d) ! i = matrixOf (rippleUpdate B t (rs ! i) d')"
proof (induction rs arbitrary: d i)
  case Nil
  then show ?case by simp
next
  case (Cons r rs)
  show ?case
  proof (cases i)
    case 0
    then show ?thesis by (auto simp: Let_def split_beta)
  next
    case (Suc j)
    with Cons.prems have "j < length rs" by simp
    from Cons.IH [OF this, of "rippleUpdate B t r d"] Suc show ?thesis
      by (auto simp: Let_def split_beta)
  qed
qed

text \<open>
  Claim C5. For every particle of ring 0 (random offset not negative, as generated),
  every tree state and every elapsed time \<open>t\<close> from 0 on, with the stagger time 0.9, the
  cycle duration 6.5 and the active window 3.0 of the source: the frame writes one
  buffer entry per particle, and the scale of the particle's entry is greater than 0
  exactly when \<open>t mod 6.5 < 3\<close> (the remainder written as \<open>t - 6.5 * floor (t / 6.5)\<close>);
  otherwise it is exactly 0.
\<close>

theorem ripple_ring0_visible_window:
  assumes "i < length rs" and "r_ringIndex (rs ! i) = 0" and "0 \<le> r_randomOffset (rs ! i)"
    and "0 \<le> t"
  shows "length (fst (rippleFrame ts t rs d)) = length rs \<and>
     (0 < mat_scale (fst (rippleFrame ts t rs d) ! i) \<longleftrightarrow> t - 6.5 * of_int \<lfloor>t / 6.5\<rfloor> < 3) \<and>
     mat_scale (fst (rippleFrame ts t rs d) ! i) =
       (if t - 6.5 * of_int \<lfloor>t / 6.5\<rfloor> < 3
        then (0.08 + r_randomOffset (rs ! i) * 0.15) * (1 - (t - 6.5 * of_int \<lfloor>t / 6.5\<rfloor>) / 3)
        else 0)"
proof -
  define B :: real where "B = (if ts = CLOSED then 28 else 55)"
  have f: "rippleFrame ts t rs d = rippleLoop B t rs d"
    by (simp add: rippleFrame_def B_def)
  obtain d' where d': "fst (rippleLoop B t rs d) ! i = matrixOf (rippleUpdate B t (rs ! i) d')"
    using rippleLoop_nth [OF assms(1)] by blast
  have s: "mat_scale (fst (rippleLoop B t rs d) ! i) = obj_scale (rippleUpdate B t (rs ! i) d')"
    by (simp add: d' matrixOf_def)
  have pos: "0 < 0.08 + r_randomOffset (rs ! i) * 0.15"
    using assms(3) by (simp add: add_pos_nonneg)
  show ?thesis
    unfolding f s rippleUpdate_ring0_scale [OF assms(2,4)] rippleLoop_length
    using pos by (auto simp: zero_less_mult_iff)
qed

theorem ripple_ring0_visible_window_witness:
  "0 < mat_scale (fst (rippleFrame CLOSED 1
      [\<lparr>r_ringIndex = 0, r_angle = 0, r_randomOffset = 0.2, r_speed = 1\<rparr>] newObject3D) ! 0) \<and>
   mat_scale (fst (rippleFrame CLOSED 3
      [\<lparr>r_ringIndex = 0, r_angle = 0, r_randomOffset = 0.2, r_speed = 1\<rparr>] newObject3D) ! 0) = 0 \<and>
   mat_scale (fst (rippleFrame SCATTERED 4
      [\<lparr>r_ringIndex = 0, r_angle = 0, r_randomOffset = 0.2, r_speed = 1\<rparr>] newObject3D) ! 0) = 0 \<and>
   0 < mat_scale (fst (rippleFrame SCATTERED 7
      [\<lparr>r_ringIndex = 0, r_angle = 0, r_randomOffset = 0.2, r_speed = 1\<rparr>] newObject3D) ! 0)"
  using
    ripple_ring0_visible_window [of 0 "[\<lparr>r_ringIndex = 0, r_angle = 0, r_randomOffset = 0.2, r_speed = 1\<rparr>]" 1 CLOSED newObject3D]
    ripple_ring0_visible_window [of 0 "[\<lparr>r_ringIndex = 0, r_angle = 0, r_randomOffset = 0.2, r_speed = 1\<rparr>]" 3 CLOSED newObject3D]
    ripple_ring0_visible_window [of 0 "[\<lparr>r_ringIndex = 0, r_angle = 0, r_randomOffset = 0.2, r_speed = 1\<rparr>]" 4 SCATTERED newObject3D]
    ripple_ring0_visible_window [of 0 "[\<lparr>r_ringIndex = 0, r_angle = 0, r_randomOffset = 0.2, r_speed = 1\<rparr>]" 7 SCATTERED newObject3D]
  by simp

section \<open>Snow population: results\<close>


lemma snowUpdate_fall:
  assumes "\<not> s_y s - s_speed s * delta * 2 < - 20"
  shows "snowUpdate random delta (s, k) = (s\<lparr>s_y := s_y s - s_speed s * delta * 2\<rparr>, k)"
  using assms by (simp add: snowUpdate_def Let_def)






section \<open>Ornament population: convergence of the position\<close>

lemma lerp_offset: "lerp a b t - b = (1 - t) * (a - b)"
  by (simp add: lerp_def algebra_simps)

lemma dist3_smoothPosition:
  "dist3 (smoothPosition ts dl o' cur) (targetPos ts o') =
     \<bar>1 - dl * 2.5\<bar> * dist3 cur (targetPos ts o')"
proof -
  obtain cx cy cz where cur: "cur = (cx, cy, cz)" by (cases cur) auto
  obtain tx ty tz where tg: "targetPos ts o' = (tx, ty, tz)" by (cases "targetPos ts o'") auto
  have "dist3 (smoothPosition ts dl o' cur) (targetPos ts o') =
      sqrt (((1 - dl * 2.5) * (cx - tx))\<^sup>2 + ((1 - dl * 2.5) * (cy - ty))\<^sup>2
        + ((1 - dl * 2.5) * (cz - tz))\<^sup>2)"
    by (simp add: dist3_def smoothPosition_def Let_def cur tg lerp_offset)
  also have "\<dots> = sqrt ((1 - dl * 2.5)\<^sup>2 * ((cx - tx)\<^sup>2 + (cy - ty)\<^sup>2 + (cz - tz)\<^sup>2))"
    by (simp add: power_mult_distrib distrib_left)
  also have "\<dots> = \<bar>1 - dl * 2.5\<bar> * sqrt ((cx - tx)\<^sup>2 + (cy - ty)\<^sup>2 + (cz - tz)\<^sup>2)"
    by (simp add: real_sqrt_mult)
  finally show ?thesis by (simp add: dist3_def cur tg)
qed

lemma dist3_nonneg: "0 \<le> dist3 p q"
  by (simp add: dist3_def)

lemma emojiLoop_positions:
  "length cps = length data \<Longrightarrow>
     \<not> isl (emojiLoop ts el dl i data cps d) \<and>
     fst (projr (emojiLoop ts el dl i data cps d)) = map2 (smoothPosition ts dl) data cps"
proof (induction data arbitrary: cps i d)
  case Nil
  then show ?case by simp
next
  case (Cons o' os)
  then obtain cp cps' where cps: "cps = cp # cps'" "length cps' = length os"
    by (cases cps) auto
  let ?d = "snd (emojiUpdate ts el dl i o' cp d)"
  from Cons.IH [OF cps(2), of "Suc i" ?d]
  obtain r where r: "emojiLoop ts el dl (Suc i) os cps' ?d = Inr r"
      "fst r = map2 (smoothPosition ts dl) os cps'"
    by (cases "emojiLoop ts el dl (Suc i) os cps' ?d") auto
  have u: "fst (emojiUpdate ts el dl i o' cp d) = smoothPosition ts dl o' cp"
    by (simp add: emojiUpdate_def Let_def)
  show ?case
    using r u by (simp add: cps(1) split_beta)
qed

lemma emojiFrames_positions:
  "length cps = length data \<Longrightarrow>
     \<not> isl (emojiFrames ts el dl data n cps d) \<and>
     fst (projr (emojiFrames ts el dl data n cps d))
       = map2 (\<lambda>o' c. (smoothPosition ts dl o' ^^ n) c) data cps"
proof (induction n)
  case 0
  have "map2 (\<lambda>o' c. c) data cps = cps" if "length cps = length data"
    using that by (intro nth_equalityI) simp_all
  with 0 show ?case by simp
next
  case (Suc n)
  then obtain cpsn dn where n: "emojiFrames ts el dl data n cps d = Inr (cpsn, dn)"
      "cpsn = map2 (\<lambda>o' c. (smoothPosition ts dl o' ^^ n) c) data cps"
    by (cases "emojiFrames ts el dl data n cps d") auto
  have len: "length cpsn = length data" using Suc.prems by (simp add: n(2))
  from emojiLoop_positions [OF len, of ts "el n" dl 0 dn]
  obtain r where r: "emojiLoop ts (el n) dl 0 data cpsn dn = Inr r"
      "fst r = map2 (smoothPosition ts dl) data cpsn"
    by (cases "emojiLoop ts (el n) dl 0 data cpsn dn") auto
  have "map2 (smoothPosition ts dl) data cpsn
      = map2 (\<lambda>o' c. (smoothPosition ts dl o' ^^ Suc n) c) data cps"
    using Suc.prems unfolding n(2)
    by (intro nth_equalityI) simp_all
  then show ?case
    using r by (simp add: n(1) emojiFrame_def split_beta)
qed

lemma dist3_iterate:
  "dist3 ((smoothPosition ts dl o' ^^ n) cur) (targetPos ts o') =
     \<bar>1 - dl * 2.5\<bar> ^ n * dist3 cur (targetPos ts o')"
  by (induction n) (simp_all add: dist3_smoothPosition)

text \<open>
  Claim C3, as stated, fails: it holds for no frame time of 0.8 or more. With
  \<open>delta = 1\<close> the rate is 2.5; an ornament at distance 1 from its new target is moved
  past it, to distance 1.5.
\<close>

theorem ornament_overshoot_counterexample:
  "emojiFrame SCATTERED 0 1
     [\<lparr>o_initialPos = (0, 0, 0), o_treePos = (0, 0, 0), o_scatterPos = (1, 0, 0),
       o_type = ''sphere'', o_color = ''#1a3a2a'', o_size = 1/2\<rparr>]
     [(0, 0, 0)] newObject3D
   = Inr ([(5/2, 0, 0)],
          [\<lparr>mat_position = (5/2, 3/200, 0), mat_scale = 1\<rparr>],
          \<lparr>obj_position = (5/2, 3/200, 0), obj_scale = 1\<rparr>) \<and>
   dist3 (0, 0, 0) (1, 0, 0) = 1 \<and>
   dist3 (5/2, 0, 0) (1, 0, 0) = 3/2 \<and>
   \<not> dist3 (5/2, 0, 0) (1, 0, 0) < dist3 (0, 0, 0) (1, 0, 0)"
  by (simp add: emojiFrame_def emojiUpdate_def smoothPosition_def targetPos_def lerp_def
      matrixOf_def newObject3D_def dist3_def Let_def)

text \<open>
  Claim C3, amended. After a flip, under a constant tree state and a constant \<open>delta\<close>
  with \<open>0 < 2.5 * delta < 2\<close>, for every ornament of the layer and every number \<open>n\<close> of
  frames: the frames run without error, each frame multiplies the euclidean distance
  from the stored position to the target by \<open>|1 - 2.5 * delta|\<close>, so the distance gets
  strictly smaller in every frame in which it is not yet 0, and it never exceeds the
  distance at the flip.
\<close>

theorem ornament_distance_decreases:
  assumes "length cps = length data" and "i < length data"
    and "0 < delta * 2.5" and "delta * 2.5 < 2"
  shows "\<not> isl (emojiFrames ts el delta data n cps d) \<and>
     \<not> isl (emojiFrames ts el delta data (Suc n) cps d) \<and>
     dist3 (fst (projr (emojiFrames ts el delta data (Suc n) cps d)) ! i) (targetPos ts (data ! i))
       = \<bar>1 - delta * 2.5\<bar> *
         dist3 (fst (projr (emojiFrames ts el delta data n cps d)) ! i) (targetPos ts (data ! i)) \<and>
     (0 < dist3 (fst (projr (emojiFrames ts el delta data n cps d)) ! i) (targetPos ts (data ! i)) \<longrightarrow>
        dist3 (fst (projr (emojiFrames ts el delta data (Suc n) cps d)) ! i) (targetPos ts (data ! i))
          < dist3 (fst (projr (emojiFrames ts el delta data n cps d)) ! i) (targetPos ts (data ! i))) \<and>
     dist3 (fst (projr (emojiFrames ts el delta data n cps d)) ! i) (targetPos ts (data ! i))
       \<le> dist3 (cps ! i) (targetPos ts (data ! i))"
proof -
  let ?T = "targetPos ts (data ! i)"
  let ?q = "\<bar>1 - delta * 2.5\<bar>"
  have q: "0 \<le> ?q" "?q < 1" using assms(3,4) by (simp_all add: abs_if)
  have pos: "fst (projr (emojiFrames ts el delta data m cps d)) ! i
      = (smoothPosition ts delta (data ! i) ^^ m) (cps ! i)" for m
    using emojiFrames_positions [OF assms(1), of ts el delta m d] assms(1,2) by simp
  have P: "dist3 (fst (projr (emojiFrames ts el delta data m cps d)) ! i) ?T
      = ?q ^ m * dist3 (cps ! i) ?T" for m
    unfolding pos by (rule dist3_iterate)
  have ok: "\<not> isl (emojiFrames ts el delta data m cps d)" for m
    using emojiFrames_positions [OF assms(1), of ts el delta m d] by simp
  have step: "?q ^ Suc n * dist3 (cps ! i) ?T = ?q * (?q ^ n * dist3 (cps ! i) ?T)"
    by simp
  have strict: "?q * x < x" if "0 < x" for x :: real
    using that q(2) by simp
  have qn: "0 \<le> ?q ^ n" "?q ^ n \<le> 1" using q by (simp_all add: power_le_one)
  have le: "?q ^ n * dist3 (cps ! i) ?T \<le> dist3 (cps ! i) ?T"
    by (rule mult_left_le_one_le [OF dist3_nonneg qn])
  show ?thesis
  proof (intro conjI impI)
    show "\<not> isl (emojiFrames ts el delta data n cps d)" by (rule ok)
    show "\<not> isl (emojiFrames ts el delta data (Suc n) cps d)" by (rule ok)
    show "dist3 (fst (projr (emojiFrames ts el delta data (Suc n) cps d)) ! i) ?T
       = ?q * dist3 (fst (projr (emojiFrames ts el delta data n cps d)) ! i) ?T"
      unfolding P by (rule step)
    show "dist3 (fst (projr (emojiFrames ts el delta data (Suc n) cps d)) ! i) ?T
          < dist3 (fst (projr (emojiFrames ts el delta data n cps d)) ! i) ?T"
      if "0 < dist3 (fst (projr (emojiFrames ts el delta data n cps d)) ! i) ?T"
      using that unfolding P step by (rule strict)
    show "dist3 (fst (projr (emojiFrames ts el delta data n cps d)) ! i) ?T \<le> dist3 (cps ! i) ?T"
      unfolding P by (rule le)
  qed
qed

theorem ornament_distance_decreases_witness:
  "0 < (1/5) * (2.5 :: real) \<and> (1/5) * 2.5 < (2 :: real) \<and>
   dist3 (fst (projr (emojiFrames SCATTERED (\<lambda>k. 0) (1/5)
      [\<lparr>o_initialPos = (0, 0, 0), o_treePos = (0, 0, 0), o_scatterPos = (1, 0, 0),
        o_type = ''sphere'', o_color = ''#1a3a2a'', o_size = 1/2\<rparr>] (Suc 0) [(0, 0, 0)] newObject3D)) ! 0)
      (1, 0, 0)
   < dist3 (fst (projr (emojiFrames SCATTERED (\<lambda>k. 0) (1/5)
      [\<lparr>o_initialPos = (0, 0, 0), o_treePos = (0, 0, 0), o_scatterPos = (1, 0, 0),
        o_type = ''sphere'', o_color = ''#1a3a2a'', o_size = 1/2\<rparr>] 0 [(0, 0, 0)] newObject3D)) ! 0)
      (1, 0, 0)"
proof -
  let ?data = "[\<lparr>o_initialPos = (0, 0, 0), o_treePos = (0, 0, 0), o_scatterPos = (1, 0, 0),
        o_type = ''sphere'', o_color = ''#1a3a2a'', o_size = 1/2\<rparr>]"
  have h1: "length [(0, 0, 0) :: vec3] = length ?data" by simp
  have h2: "0 < length ?data" by simp
  have h3: "0 < (1/5) * (2.5 :: real)" and h4: "(1/5) * 2.5 < (2 :: real)" by simp_all
  have T: "targetPos SCATTERED (?data ! 0) = (1, 0, 0)" by (simp add: targetPos_def)
  have start: "0 < dist3 (fst (projr (emojiFrames SCATTERED (\<lambda>k. 0) (1/5) ?data 0 [(0, 0, 0)] newObject3D)) ! 0)
      (1, 0, 0)"
    by (simp add: dist3_def)
  from ornament_distance_decreases [OF h1 h2 h3 h4, of SCATTERED "\<lambda>k. 0" 0 newObject3D] start h3 h4
  show ?thesis unfolding T by blast
qed

section \<open>Camera controller, smoothing under the frame time, and the ornaments' scale: results\<close>

text \<open>
  Claim C7. One frame of the camera controller, for any hand data, target rotation and
  camera: when the signal is detected the target yaw (\<open>rot_y\<close>) becomes
  \<open>(position.x - 0.5) * pi\<close> and the target pitch proxy (\<open>rot_x\<close>) becomes
  \<open>(position.y - 0.5) * pi * 0.5\<close>, otherwise both keep their values; the camera position
  moves from its old value toward \<open>(32 * sin yaw, pitch * 20 + 7, 32 * cos yaw)\<close> by the
  exponential-smoothing law with rate \<open>3 * delta\<close>; and the camera then looks at the
  origin.
\<close>

theorem camera_frame:
  "cameraFrame \<lparr>isOpen = io, rotation = r, position = (px, py), detected = dt\<rparr> delta
      (\<lparr>rot_x = tx, rot_y = ty\<rparr>, \<lparr>cam_position = (cx, cy, cz), cam_lookAt = l\<rparr>) =
     (let yaw = (if dt then (px - 0.5) * pi else ty);
          pitch = (if dt then (py - 0.5) * pi * 0.5 else tx)
      in (\<lparr>rot_x = pitch, rot_y = yaw\<rparr>,
          \<lparr>cam_position = (cx + (32 * sin yaw - cx) * (3 * delta),
                            cy + (pitch * 20 + 7 - cy) * (3 * delta),
                            cz + (32 * cos yaw - cz) * (3 * delta)),
           cam_lookAt = (0, 0, 0)\<rparr>))"
  by (simp add: cameraFrame_def lerp_def Let_def mult.commute)





lemma emojiUpdate_scale:
  "obj_scale (snd (emojiUpdate ts el dl i o' cur d)) =
     lerp (obj_scale d) (if ts = CLOSED then o_size o' else o_size o' * 2) (dl * 2.5)"
  by (simp add: emojiUpdate_def Let_def)

text \<open>
  Claim C6 against the code. The scale of an ornament is interpolated from
  \<open>dummy.scale.x\<close>, and the scratch object is shared by all ornaments of the layer: the
  start of the interpolation is the scale written for the previous ornament of the loop
  (for the first ornament, the last one of the previous frame), not the ornament's own
  previous scale. Two ornaments of sizes 1 and 1/2 in the gathered state, two frames with
  \<open>delta = 1/4\<close>: the first frame writes the scales 1 and 11/16; the second frame writes
  113/128 and 659/1024, where interpolation from each ornament's own previous scale
  toward its size would give 1 and 73/128.
\<close>

theorem ornament_scale_shared_scratch:
  "(case emojiFrame CLOSED 0 (1/4)
      [\<lparr>o_initialPos = (1, 0, 0), o_treePos = (1, 0, 0), o_scatterPos = (9, 0, 0),
        o_type = ''sphere'', o_color = ''#1a3a2a'', o_size = 1\<rparr>,
       \<lparr>o_initialPos = (2, 0, 0), o_treePos = (2, 0, 0), o_scatterPos = (8, 0, 0),
        o_type = ''sphere'', o_color = ''#990000'', o_size = 1/2\<rparr>]
      [(1, 0, 0), (2, 0, 0)] newObject3D of
      Inl e \<Rightarrow> False
    | Inr (cps1, ms1, d1) \<Rightarrow>
        map mat_scale ms1 = [1, 11/16] \<and>
        (case emojiFrame CLOSED 0 (1/4)
           [\<lparr>o_initialPos = (1, 0, 0), o_treePos = (1, 0, 0), o_scatterPos = (9, 0, 0),
             o_type = ''sphere'', o_color = ''#1a3a2a'', o_size = 1\<rparr>,
            \<lparr>o_initialPos = (2, 0, 0), o_treePos = (2, 0, 0), o_scatterPos = (8, 0, 0),
             o_type = ''sphere'', o_color = ''#990000'', o_size = 1/2\<rparr>]
           cps1 d1 of
           Inl e \<Rightarrow> False
         | Inr (cps2, ms2, d2) \<Rightarrow>
             map mat_scale ms2 = [113/128, 659/1024] \<and>
             lerp (mat_scale (ms1 ! 0)) 1 ((1/4) * 2.5) = 1 \<and>
             mat_scale (ms2 ! 0) \<noteq> lerp (mat_scale (ms1 ! 0)) 1 ((1/4) * 2.5) \<and>
             lerp (mat_scale (ms1 ! 1)) (1/2) ((1/4) * 2.5) = 73/128 \<and>
             mat_scale (ms2 ! 1) \<noteq> lerp (mat_scale (ms1 ! 1)) (1/2) ((1/4) * 2.5)))"
  by (simp add: emojiFrame_def emojiUpdate_def smoothPosition_def targetPos_def lerp_def
      matrixOf_def newObject3D_def TREE_ROTATION_SPEED_def Let_def)

end
